theory Spec2Isabelle
  imports Complex_Main "HOL-Library.AList"
begin

section \<open>JavaScript values\<close>

text \<open>
  The store receives untyped JavaScript values for its configuration options and for the
  payload of a triad. A number is a finite value, NaN or one of the two infinities; finite
  values are taken as real numbers (rounding of doubles is not part of the model).
  Objects (arrays included) are lists of own enumerable properties.
\<close>

datatype jsnum = Fin real | NaN | PosInf | NegInf

datatype jsval =
    JUndefined
  | JNull
  | JBool bool
  | JNum jsnum
  | JStr string
  | JObj "(string \<times> jsval) list"

fun typeof :: "jsval \<Rightarrow> string" where
  "typeof JUndefined = ''undefined''"
| "typeof JNull = ''object''"
| "typeof (JBool b) = ''boolean''"
| "typeof (JNum n) = ''number''"
| "typeof (JStr s) = ''string''"
| "typeof (JObj kvs) = ''object''"

text \<open>\<open>truthy v\<close> is the value of \<open>!!v\<close>.\<close>

fun truthy :: "jsval \<Rightarrow> bool" where
  "truthy JUndefined = False"
| "truthy JNull = False"
| "truthy (JBool b) = b"
| "truthy (JNum (Fin r)) = (r \<noteq> 0)"
| "truthy (JNum NaN) = False"
| "truthy (JNum PosInf) = True"
| "truthy (JNum NegInf) = True"
| "truthy (JStr s) = (s \<noteq> [])"
| "truthy (JObj kvs) = True"

text \<open>\<open>Object.keys\<close>, used only on values whose \<open>typeof\<close> is \<open>object\<close>.\<close>

fun object_keys :: "jsval \<Rightarrow> string list" where
  "object_keys (JObj kvs) = map fst kvs"
| "object_keys v = []"

text \<open>The comparisons \<open>a <= b\<close> and \<open>a > b\<close> on numbers: every comparison with NaN is false.\<close>

fun js_le :: "jsnum \<Rightarrow> jsnum \<Rightarrow> bool" where
  "js_le NaN b = False"
| "js_le a NaN = False"
| "js_le NegInf b = True"
| "js_le a PosInf = True"
| "js_le (Fin a) (Fin b) = (a \<le> b)"
| "js_le PosInf b = False"
| "js_le a NegInf = False"

fun js_gt :: "jsnum \<Rightarrow> jsnum \<Rightarrow> bool" where
  "js_gt NaN b = False"
| "js_gt a NaN = False"
| "js_gt PosInf PosInf = False"
| "js_gt PosInf b = True"
| "js_gt NegInf b = False"
| "js_gt (Fin a) (Fin b) = (a > b)"
| "js_gt (Fin a) NegInf = True"
| "js_gt (Fin a) PosInf = False"

section \<open>Configuration validation (TriadMatrix.js)\<close>

definition DEFAULT_DIMENSIONS :: jsnum where
  "DEFAULT_DIMENSIONS = Fin 3"

definition DEFAULT_COMPLEXITY :: jsnum where
  "DEFAULT_COMPLEXITY = Fin 4"

definition DEFAULT_CONSENSUS_THRESHOLD :: jsnum where
  "DEFAULT_CONSENSUS_THRESHOLD = Fin (67 / 100)"

text \<open>
  \<open>validateDimensions\<close>, \<open>validateComplexity\<close> and \<open>validateConsensusThreshold\<close>: a type
  test, then a range test, otherwise the option is returned as it came. The logger calls
  are left out.
\<close>

fun validateDimensions :: "jsval \<Rightarrow> jsnum" where
  "validateDimensions (JNum dimensions) =
     (if js_le dimensions (Fin 0) then DEFAULT_DIMENSIONS else dimensions)"
| "validateDimensions v = DEFAULT_DIMENSIONS"

fun validateComplexity :: "jsval \<Rightarrow> jsnum" where
  "validateComplexity (JNum complexity) =
     (if js_le complexity (Fin 0) then DEFAULT_COMPLEXITY else complexity)"
| "validateComplexity v = DEFAULT_COMPLEXITY"

fun validateConsensusThreshold :: "jsval \<Rightarrow> jsnum" where
  "validateConsensusThreshold (JNum threshold) =
     (if js_le threshold (Fin 0) \<or> js_gt threshold (Fin 1)
      then DEFAULT_CONSENSUS_THRESHOLD else threshold)"
| "validateConsensusThreshold v = DEFAULT_CONSENSUS_THRESHOLD"

text \<open>
  The specification's reading of a valid \<open>dimensions\<close> or \<open>complexity\<close>: an integer greater
  than zero.
\<close>

fun spec_positive_integer :: "jsval \<Rightarrow> bool" where
  "spec_positive_integer (JNum (Fin r)) = (r = of_int \<lfloor>r\<rfloor> \<and> 0 < r)"
| "spec_positive_integer v = False"

section \<open>The triad store (TriadMatrix.js)\<close>

text \<open>
  Coordinates, scores and the numeric configuration of a running store are real numbers.
  Identifiers are strings. The LevelDB handle is modelled by its two key spaces: the
  records under the keys \<open>triad:<id>\<close>, indexed by the id, and the single record under
  \<open>matrix:state_metadata\<close>. Values are stored as JSON, so a record read from the
  database is a copy: it shares nothing with the objects held in \<open>matrix\<close> and
  \<open>triads\<close>. Writes are taken to succeed; \<open>dbWrites\<close> logs the key of every put in the
  order the puts are issued, \<open>emitted\<close> the events given to \<open>emit\<close>.
\<close>

record position =
  pos_x :: real
  pos_y :: real
  pos_z :: real

record triad =
  triad_id :: string
  data :: jsval
  validator :: string
  timestamp :: nat
  position :: position
  connections :: "string list"
  validated :: bool
  consensus :: real
  validationAttempts :: nat

record stateMetadata =
  md_dimensions :: real
  md_complexity :: real
  md_consensusThreshold :: real
  md_validators :: "string list"
  lastUpdated :: nat
  triadsCount :: nat
  validatedTriadsCount :: nat

datatype event = TriadCreated triad | TriadValidated triad

record store =
  dimensions :: real
  complexity :: real
  consensusThreshold :: real
  matrix :: "triad list"
  triads :: "(string \<times> triad) list"
  validators :: "string list"
  isInitialized :: bool
  lastError :: "string option"
  db_triads :: "string \<rightharpoonup> triad"
  db_metadata :: "stateMetadata option"
  dbWrites :: "string list"
  emitted :: "event list"

text \<open>
  What the environment supplies to one \<open>createTriad\<close> call: the hex string of
  \<open>crypto.randomBytes(16)\<close>, the two readings of \<open>Date.now()\<close> (for the triad and for the
  metadata record) and the three results of \<open>Math.random()\<close>, each in \<open>[0, 1)\<close>.
\<close>

record entropy =
  rand_id :: string
  clock :: nat
  clock_save :: nat
  rnd_x :: real
  rnd_y :: real
  rnd_z :: real

definition random_ok :: "entropy \<Rightarrow> bool" where
  "random_ok e \<longleftrightarrow>
     0 \<le> rnd_x e \<and> rnd_x e < 1 \<and> 0 \<le> rnd_y e \<and> rnd_y e < 1 \<and> 0 \<le> rnd_z e \<and> rnd_z e < 1"

definition validateInitialization :: "store \<Rightarrow> string + unit" where
  "validateInitialization s =
     (if \<not> isInitialized s then Inl ''TriadMatrix not initialized'' else Inr ())"

definition validateTriadData :: "jsval \<Rightarrow> string + unit" where
  "validateTriadData d =
     (if \<not> truthy d then Inl ''Invalid data format for triad''
      else if typeof d \<noteq> ''object'' \<and> typeof d \<noteq> ''string''
        then Inl (''Invalid data type for triad: '' @ typeof d @ ''. Expected object or string'')
      else if typeof d = ''object'' \<and> length (object_keys d) = 0
        then Inl ''Triad data object cannot be empty''
      else Inr ())"

text \<open>
  \<open>String.prototype.trim\<close> on the ASCII white space characters (tab, line feed, vertical
  tab, form feed, carriage return, space).
\<close>

definition is_js_space :: "char \<Rightarrow> bool" where
  "is_js_space c \<longleftrightarrow>
     c \<in> set [CHR 0x09, CHR 0x0A, CHR 0x0B, CHR 0x0C, CHR 0x0D, CHR 0x20]"

definition trim :: "string \<Rightarrow> string" where
  "trim v = rev (dropWhile is_js_space (rev (dropWhile is_js_space v)))"

definition validateValidator :: "string \<Rightarrow> string + unit" where
  "validateValidator validatorId =
     (if validatorId = [] then Inl ''Validator ID cannot be null or undefined''
      else if length (trim validatorId) = 0 then Inl ''Validator ID cannot be empty''
      else Inr ())"

definition calculateDistance :: "position \<Rightarrow> position \<Rightarrow> real" where
  "calculateDistance pos1 pos2 =
     sqrt ((pos_x pos1 - pos_x pos2)\<^sup>2 + (pos_y pos1 - pos_y pos2)\<^sup>2
           + (pos_z pos1 - pos_z pos2)\<^sup>2)"

definition getTriadConnections :: "store \<Rightarrow> triad \<Rightarrow> triad list" where
  "getTriadConnections s t =
     filter (\<lambda>u. if triad_id u = triad_id t then False
                 else (let distance = calculateDistance (position u) (position t)
                       in distance \<le> complexity s \<and> distance > 0))
            (matrix s)"

definition calculateConnectionScore :: "store \<Rightarrow> triad \<Rightarrow> triad \<Rightarrow> real" where
  "calculateConnectionScore s triad1 triad2 =
     (let distance = calculateDistance (position triad1) (position triad2)
      in if distance > complexity s then 0 else max 0 (1 - distance / complexity s))"

definition connection_score :: "store \<Rightarrow> triad \<Rightarrow> triad \<Rightarrow> real" where
  "connection_score s t conn =
     (if validated conn then calculateConnectionScore s t conn
      else 0.5 * calculateConnectionScore s t conn)"

definition calculateConsensus :: "store \<Rightarrow> triad \<Rightarrow> string \<Rightarrow> real" where
  "calculateConsensus s t currentValidatorId =
     (if currentValidatorId \<notin> set (validators s) then 0
      else
        let conns = getTriadConnections s t;
            consensusScore =
              (if length conns > 0
               then
                 let validationScores = map (connection_score s t) conns;
                     connectionScore =
                       foldl (\<lambda>a b. a + b) 0 validationScores / real (length validationScores)
                 in 0.7 + connectionScore * 0.3
               else 0.7)
        in min 1 consensusScore)"

definition calculateOptimalPosition :: "store \<Rightarrow> entropy \<Rightarrow> position" where
  "calculateOptimalPosition s e =
     \<lparr> pos_x = of_int \<lfloor>rnd_x e * dimensions s\<rfloor>,
       pos_y = of_int \<lfloor>rnd_y e * dimensions s\<rfloor>,
       pos_z = of_int \<lfloor>rnd_z e * dimensions s\<rfloor> \<rparr>"

definition saveMatrixState :: "store \<Rightarrow> nat \<Rightarrow> store" where
  "saveMatrixState s now =
     (let md = \<lparr> md_dimensions = dimensions s,
                 md_complexity = complexity s,
                 md_consensusThreshold = consensusThreshold s,
                 md_validators = validators s,
                 lastUpdated = now,
                 triadsCount = length (matrix s),
                 validatedTriadsCount = length (filter validated (matrix s)) \<rparr>
      in s\<lparr> db_metadata := Some md,
            dbWrites := dbWrites s @ [''matrix:state_metadata''] \<rparr>)"

text \<open>
  \<open>createTriad\<close>: the three checks, then the mirror (\<open>matrix\<close>, \<open>triads\<close>), the put of the
  record, the metadata, the event. A failing check is caught, recorded in \<open>lastError\<close> and
  thrown again with the prefix.
\<close>

definition createTriad :: "store \<Rightarrow> entropy \<Rightarrow> jsval \<Rightarrow> string \<Rightarrow> (string + triad) \<times> store" where
  "createTriad s e d v =
     (case (case validateInitialization s of Inl m \<Rightarrow> Inl m
            | Inr _ \<Rightarrow> (case validateTriadData d of Inl m \<Rightarrow> Inl m
                        | Inr _ \<Rightarrow> validateValidator v)) of
        Inl m \<Rightarrow> (Inl (''Failed to create triad: '' @ m), s\<lparr> lastError := Some m \<rparr>)
      | Inr _ \<Rightarrow>
         (let t = \<lparr> triad_id = rand_id e, data = d, validator = v, timestamp = clock e,
                    position = calculateOptimalPosition s e, connections = [],
                    validated = False, consensus = 0, validationAttempts = 0 \<rparr>;
              s1 = s\<lparr> matrix := matrix s @ [t],
                      triads := AList.update (triad_id t) t (triads s) \<rparr>;
              s2 = s1\<lparr> db_triads := (db_triads s1)(triad_id t \<mapsto> t),
                       dbWrites := dbWrites s1 @ [''triad:'' @ triad_id t] \<rparr>;
              s3 = saveMatrixState s2 (clock_save e)
          in (Inr t, s3\<lparr> emitted := emitted s3 @ [TriadCreated t] \<rparr>)))"

text \<open>
  \<open>getTriadById\<close>: the record is read from the database, not from the mirror. A missing
  key is reported without touching \<open>lastError\<close>; the other failures set it.
\<close>

definition getTriadById :: "store \<Rightarrow> string \<Rightarrow> (string + triad) \<times> store" where
  "getTriadById s triadId =
     (case validateInitialization s of
        Inl m \<Rightarrow> (Inl m, s\<lparr> lastError := Some m \<rparr>)
      | Inr _ \<Rightarrow>
         (if triadId = []
          then (Inl ''Invalid triad ID provided'',
                s\<lparr> lastError := Some ''Invalid triad ID provided'' \<rparr>)
          else (case db_triads s triadId of
                  None \<Rightarrow> (Inl (''Triad with ID '' @ triadId @ '' not found''), s)
                | Some t \<Rightarrow> (Inr t, s))))"

definition validate_fail :: "string \<Rightarrow> store \<Rightarrow> (string + triad) \<times> store" where
  "validate_fail m s = (Inl (''Failed to validate triad: '' @ m), s\<lparr> lastError := Some m \<rparr>)"

text \<open>
  \<open>validateTriad\<close>: an already validated record is returned at once. Otherwise the score is
  computed, the copy read from the database is updated and put back under the same key,
  and the event is emitted.
\<close>

definition validateTriad :: "store \<Rightarrow> string \<Rightarrow> string \<Rightarrow> (string + triad) \<times> store" where
  "validateTriad s triadId validatorId =
     (case validateInitialization s of
        Inl m \<Rightarrow> validate_fail m s
      | Inr _ \<Rightarrow>
         (case getTriadById s triadId of
            (Inl m, s1) \<Rightarrow> validate_fail m s1
          | (Inr t, s1) \<Rightarrow>
             (case validateValidator validatorId of
                Inl m \<Rightarrow> validate_fail m s1
              | Inr _ \<Rightarrow>
                 (if validated t then (Inr t, s1)
                  else
                    let consensusScore = calculateConsensus s1 t validatorId;
                        t1 = t\<lparr> consensus := consensusScore,
                                validationAttempts := validationAttempts t + 1 \<rparr>;
                        t2 = (if consensusScore \<ge> consensusThreshold s1
                              then t1\<lparr> validated := True \<rparr> else t1);
                        s2 = s1\<lparr> db_triads := (db_triads s1)(triadId \<mapsto> t2),
                                 dbWrites := dbWrites s1 @ [''triad:'' @ triadId] \<rparr>
                    in (Inr t2, s2\<lparr> emitted := emitted s2 @ [TriadValidated t2] \<rparr>)))))"

text \<open>
  \<open>addValidator\<close> is synchronous: a malformed id is thrown to the caller, a known id
  answers \<open>false\<close>, a new one is added and the metadata write is issued (the call does not
  wait for it to finish).
\<close>

definition addValidator :: "store \<Rightarrow> string \<Rightarrow> nat \<Rightarrow> (string + bool) \<times> store" where
  "addValidator s validatorId now =
     (case validateValidator validatorId of
        Inl m \<Rightarrow> (Inl m, s)
      | Inr _ \<Rightarrow>
         (if validatorId \<in> set (validators s) then (Inr False, s)
          else (Inr True, saveMatrixState (s\<lparr> validators := validators s @ [validatorId] \<rparr>) now)))"

text \<open>A sequence of \<open>validateTriad\<close> calls, each on the state the previous one left.\<close>

fun validateTriad_calls :: "store \<Rightarrow> (string \<times> string) list \<Rightarrow> store" where
  "validateTriad_calls s [] = s"
| "validateTriad_calls s ((triadId, validatorId) # cs) =
     validateTriad_calls (snd (validateTriad s triadId validatorId)) cs"

text \<open>
  The neighbour-only score the specification describes for an unregistered validator:
  0.3 times the average, over the triads at distance in \<open>(0, complexity]\<close>, of
  \<open>max 0 (1 - distance / complexity)\<close>, halved for a neighbour that is not validated.
\<close>

definition spec_neighbor_only_score :: "store \<Rightarrow> triad \<Rightarrow> real" where
  "spec_neighbor_only_score s t =
     (let ns = filter (\<lambda>u. triad_id u \<noteq> triad_id t
                            \<and> 0 < calculateDistance (position u) (position t)
                            \<and> calculateDistance (position u) (position t) \<le> complexity s)
                      (matrix s);
          prox = (\<lambda>u. let p = max 0 (1 - calculateDistance (position t) (position u) / complexity s)
                       in if validated u then p else p / 2)
      in 0.3 * (sum_list (map prox ns) / real (length ns)))"

text \<open>
  The range the specification gives a coordinate: an integer in
  \<open>{0, ..., dimensions - 1}\<close>.
\<close>

definition spec_coordinate_in_range :: "real \<Rightarrow> real \<Rightarrow> bool" where
  "spec_coordinate_in_range dims c \<longleftrightarrow> c = of_int \<lfloor>c\<rfloor> \<and> 0 \<le> c \<and> c \<le> dims - 1"

text \<open>The positions of a grid with \<open>d\<close> integer steps on each axis.\<close>

definition grid_positions :: "nat \<Rightarrow> position set" where
  "grid_positions d =
     (\<lambda>(i, j, k). \<lparr> pos_x = real i, pos_y = real j, pos_z = real k \<rparr>) `
       ({..<d} \<times> {..<d} \<times> {..<d})"

text \<open>A store as the constructor and \<open>init\<close> leave it on an empty database.\<close>

definition fresh_store :: "real \<Rightarrow> real \<Rightarrow> real \<Rightarrow> store" where
  "fresh_store d c th =
     \<lparr> dimensions = d, complexity = c, consensusThreshold = th,
       matrix = [], triads = [], validators = [],
       isInitialized = True, lastError = None,
       db_triads = Map.empty,
       db_metadata = Some \<lparr> md_dimensions = d, md_complexity = c, md_consensusThreshold = th,
                             md_validators = [], lastUpdated = 0, triadsCount = 0,
                             validatedTriadsCount = 0 \<rparr>,
       dbWrites = [''matrix:state_metadata''], emitted = [] \<rparr>"

section \<open>The peer network (P2PNode.js, ledgerSync.js)\<close>

text \<open>
  A WebSocket is a handle into \<open>sockets\<close>; what \<open>ws.send\<close> is given is appended to the
  socket's \<open>outbox\<close>. The peer map is a JavaScript \<open>Map\<close>: an association list updated in
  place, whose \<open>size\<close> is its length. An envelope is \<open>{type, payload}\<close>; a payload is one
  of the shapes the node sends or reads, and no payload stands for \<open>undefined\<close>.
\<close>

datatype readyState = CONNECTING | OPEN | CLOSING | CLOSED

datatype payload =
    Addresses "string list"
  | Message string
  | Status string
  | NodeInfo string string
  | Ledger jsval
  | OtherPayload jsval

record envelope =
  msg_type :: string
  msg_payload :: "payload option"

datatype incoming = Malformed | Parsed envelope

record socket =
  readyState :: readyState
  outbox :: "envelope list"

datatype direction = Incoming | Outgoing

record peer =
  peer_ws :: nat
  peer_id :: string
  peer_direction :: direction
  peer_url :: "string option"
  connectedAt :: nat

text \<open>
  The ledger collaborator handed to the constructor as \<open>dbConnection\<close>:
  \<open>isOpenForNewUsers\<close> is what the predicate answers, \<open>updateLedger\<close> resolves (\<open>None\<close>)
  or rejects with an \<open>Error\<close> carrying a message.
\<close>

record ledger_db =
  isOpenForNewUsers :: bool
  updateLedger :: "jsval \<Rightarrow> string option"

datatype node_event = PeerConnected string | PeerDisconnected string

record node =
  nodeId :: string
  port :: nat
  peers :: "(string \<times> peer) list"
  maxPeers :: int
  node_lastError :: "string option"
  dbConnection :: "ledger_db option"
  advertised_address :: "string option"
  sockets :: "nat \<Rightarrow> socket"
  next_socket :: nat
  ledger_calls :: "jsval list"
  node_emitted :: "node_event list"

definition MT_HANDSHAKE :: string where "MT_HANDSHAKE = ''HANDSHAKE''"
definition MT_DISCOVERY :: string where "MT_DISCOVERY = ''DISCOVERY''"
definition MT_PEERS :: string where "MT_PEERS = ''PEERS''"
definition MT_NEW_TRIAD :: string where "MT_NEW_TRIAD = ''NEW_TRIAD''"
definition MT_VALIDATE_TRIAD :: string where "MT_VALIDATE_TRIAD = ''VALIDATE_TRIAD''"
definition MT_TRIAD_VALIDATED :: string where
  "MT_TRIAD_VALIDATED = ''TRIAD_VALIDATED_CONFIRMATION''"
definition MT_GET_STATUS :: string where "MT_GET_STATUS = ''GET_STATUS''"
definition MT_STATUS_UPDATE :: string where "MT_STATUS_UPDATE = ''STATUS_UPDATE''"
definition MT_ERROR :: string where "MT_ERROR = ''ERROR''"
definition MT_SYNC_LEDGER :: string where "MT_SYNC_LEDGER = ''SYNC_LEDGER''"
definition MT_SYNC_LEDGER_CONFIRMATION :: string where
  "MT_SYNC_LEDGER_CONFIRMATION = ''SYNC_LEDGER_CONFIRMATION''"

definition DEFAULT_MAX_PEERS :: int where
  "DEFAULT_MAX_PEERS = 10"

text \<open>Decimal digits of a port number, for the template string of \<open>getPublicAddress\<close>.\<close>

definition digit_char :: "nat \<Rightarrow> char" where
  "digit_char d = ''0123456789'' ! d"

function decimal :: "nat \<Rightarrow> string" where
  "decimal n = (if n < 10 then [digit_char n] else decimal (n div 10) @ [digit_char (n mod 10)])"
  by pat_completeness auto
termination
  by (relation "measure (\<lambda>n. n)") auto

definition getPublicAddress :: "node \<Rightarrow> string" where
  "getPublicAddress n =
     (case advertised_address n of
        Some a \<Rightarrow> if a \<noteq> [] then a else ''ws://localhost:'' @ decimal (port n)
      | None \<Rightarrow> ''ws://localhost:'' @ decimal (port n))"

definition socket_terminate :: "node \<Rightarrow> nat \<Rightarrow> node" where
  "socket_terminate n ws =
     n\<lparr> sockets := (sockets n)(ws := (sockets n ws)\<lparr> readyState := CLOSED \<rparr>) \<rparr>"

text \<open>\<open>sendMessage\<close>: only an open socket is written to; \<open>ws.send\<close> is taken to succeed.\<close>

definition sendMessage :: "node \<Rightarrow> nat \<Rightarrow> envelope \<Rightarrow> node" where
  "sendMessage n ws message =
     (if readyState (sockets n ws) = OPEN
      then n\<lparr> sockets := (sockets n)(ws := (sockets n ws)\<lparr> outbox := outbox (sockets n ws) @ [message] \<rparr>) \<rparr>
      else n)"

text \<open>\<open>broadcast\<close>: the loop over \<open>peers.forEach\<close>, skipping the originator.\<close>

fun broadcast_loop :: "node \<Rightarrow> envelope \<Rightarrow> string option \<Rightarrow> (string \<times> peer) list \<Rightarrow> node" where
  "broadcast_loop n message originatorPeerId [] = n"
| "broadcast_loop n message originatorPeerId ((peerId, p) # ps) =
     broadcast_loop
       (if Some peerId \<noteq> originatorPeerId then sendMessage n (peer_ws p) message else n)
       message originatorPeerId ps"

definition broadcast :: "node \<Rightarrow> envelope \<Rightarrow> string option \<Rightarrow> node" where
  "broadcast n message originatorPeerId = broadcast_loop n message originatorPeerId (peers n)"

definition addPeer :: "node \<Rightarrow> nat \<Rightarrow> string \<Rightarrow> direction \<Rightarrow> string option \<Rightarrow> nat \<Rightarrow> node" where
  "addPeer n ws peerId dir url now =
     n\<lparr> peers := AList.update peerId
                    \<lparr> peer_ws = ws, peer_id = peerId, peer_direction = dir, peer_url = url,
                      connectedAt = now \<rparr> (peers n),
        node_emitted := node_emitted n @ [PeerConnected peerId] \<rparr>"

definition removePeer :: "node \<Rightarrow> string \<Rightarrow> node" where
  "removePeer n peerId =
     (case map_of (peers n) peerId of
        None \<Rightarrow> n
      | Some p \<Rightarrow>
         (let n1 = (if readyState (sockets n (peer_ws p)) = OPEN
                       \<or> readyState (sockets n (peer_ws p)) = CONNECTING
                    then socket_terminate n (peer_ws p) else n)
          in n1\<lparr> peers := AList.delete peerId (peers n1),
                 node_emitted := node_emitted n1 @ [PeerDisconnected peerId] \<rparr>))"

text \<open>
  Modelled from the spec: \<open>sendHandshake\<close> is called by \<open>handleNewConnection\<close> and by the
  \<open>open\<close> handler but its body is not in the source. "\<open>HANDSHAKE\<close>: acknowledges a new
  peer": it sends a \<open>HANDSHAKE\<close> envelope naming the node and its address.
\<close>

definition sendHandshake :: "node \<Rightarrow> nat \<Rightarrow> node" where
  "sendHandshake n ws =
     sendMessage n ws \<lparr> msg_type = MT_HANDSHAKE,
                        msg_payload = Some (NodeInfo (nodeId n) (getPublicAddress n)) \<rparr>"

text \<open>
  Modelled from the spec: \<open>isConnectedTo\<close> is called by \<open>connectToPeer\<close> but its body is
  not in the source. "Refuses to initiate new outbound connections ... to a peer already
  connected": an address is connected when a peer of the active set carries it.
\<close>

definition isConnectedTo :: "node \<Rightarrow> string \<Rightarrow> bool" where
  "isConnectedTo n peerAddress = (Some peerAddress \<in> set (map (\<lambda>(k, p). peer_url p) (peers n)))"

text \<open>
  Modelled from the spec: \<open>findPeerIdByWs\<close> is called by the handlers of an outbound
  socket but its body is not in the source. It is the key of the first peer of the
  active set that holds the socket, if any.
\<close>

definition findPeerIdByWs :: "node \<Rightarrow> nat \<Rightarrow> string option" where
  "findPeerIdByWs n ws = map_option fst (find (\<lambda>(k, p). peer_ws p = ws) (peers n))"

text \<open>
  Modelled from the spec: \<open>getPeerAddresses\<close> is called by the \<open>DISCOVERY\<close> branch of
  \<open>handleMessage\<close> but its body is not in the source. "Requester is sent the current peer
  address list", "containing at least the responder's own advertised address": the
  node's own advertised address, followed by the known addresses of the active peers.
\<close>

definition getPeerAddresses :: "node \<Rightarrow> string list" where
  "getPeerAddresses n =
     getPublicAddress n # List.map_filter (\<lambda>(k, p). peer_url p) (peers n)"

text \<open>
  \<open>handleNewConnection\<close>: an inbound socket (already open) with the id drawn for it.
\<close>

definition handleNewConnection :: "node \<Rightarrow> nat \<Rightarrow> string \<Rightarrow> nat \<Rightarrow> node" where
  "handleNewConnection n ws peerId now =
     (if int (length (peers n)) \<ge> maxPeers n then socket_terminate n ws
      else sendHandshake (addPeer n ws peerId Incoming None now) ws)"

text \<open>
  \<open>handlePeerDisconnection\<close>, the \<open>close\<close> handler of an inbound socket. An unknown id
  raises inside the \<open>try\<close> and is recorded in \<open>lastError\<close>.
\<close>

definition handlePeerDisconnection :: "node \<Rightarrow> string \<Rightarrow> node" where
  "handlePeerDisconnection n peerId =
     (case map_of (peers n) peerId of
        None \<Rightarrow> n\<lparr> node_lastError := Some (''Peer '' @ peerId @ '' not found in peers map'') \<rparr>
      | Some p \<Rightarrow>
         (let n1 = socket_terminate n (peer_ws p);
              n2 = n1\<lparr> peers := AList.delete peerId (peers n1),
                       node_emitted := node_emitted n1 @ [PeerDisconnected peerId] \<rparr>
          in if 2 * int (length (peers n2)) < maxPeers n2
             then broadcast n2 \<lparr> msg_type = MT_DISCOVERY,
                                 msg_payload = Some (NodeInfo (nodeId n2) (getPublicAddress n2)) \<rparr>
                            None
             else n2))"

text \<open>
  \<open>connectToPeer\<close>: the two guards, then a new socket in state \<open>CONNECTING\<close> with the
  temporary id \<open>outgoing-<uuid>\<close>. The peer is not added here: \<open>setupOutgoingConnection\<close>
  registers the handlers, and the \<open>open\<close> handler adds it when the socket opens. The
  result names the socket and the id the handlers close over.
\<close>

definition connectToPeer :: "node \<Rightarrow> string \<Rightarrow> string \<Rightarrow> node \<times> (nat \<times> string) option" where
  "connectToPeer n peerAddress uuid =
     (if int (length (peers n)) \<ge> maxPeers n then (n, None)
      else if isConnectedTo n peerAddress then (n, None)
      else
        let ws = next_socket n;
            n1 = n\<lparr> sockets := (sockets n)(ws := \<lparr> readyState = CONNECTING, outbox = [] \<rparr>),
                    next_socket := ws + 1 \<rparr>
        in (n1, Some (ws, ''outgoing-'' @ uuid)))"

text \<open>The \<open>open\<close> handler of \<open>setupOutgoingConnection\<close>; the socket has become \<open>OPEN\<close>.\<close>

definition outgoing_open :: "node \<Rightarrow> nat \<Rightarrow> string \<Rightarrow> string \<Rightarrow> nat \<Rightarrow> node" where
  "outgoing_open n ws tempId peerAddress now =
     (let n0 = n\<lparr> sockets := (sockets n)(ws := (sockets n ws)\<lparr> readyState := OPEN \<rparr>) \<rparr>;
          n1 = addPeer n0 ws tempId Outgoing (Some peerAddress) now;
          n2 = sendHandshake n1 ws
      in sendMessage n2 ws \<lparr> msg_type = MT_DISCOVERY, msg_payload = None \<rparr>)"

text \<open>The \<open>close\<close> and \<open>error\<close> handlers of \<open>setupOutgoingConnection\<close>.\<close>

definition outgoing_close :: "node \<Rightarrow> nat \<Rightarrow> string \<Rightarrow> node" where
  "outgoing_close n ws tempId =
     removePeer n (case findPeerIdByWs n ws of Some k \<Rightarrow> k | None \<Rightarrow> tempId)"

text \<open>
  ledgerSync.js binds \<open>logger\<close> to the whole module object of utils/logger.js
  (\<open>const logger = require('../utils/logger')\<close>), whose exports are \<open>logger\<close>,
  \<open>expressLogger\<close>, \<open>createChildLogger\<close> and \<open>levels\<close>; of these \<open>expressLogger\<close> and
  \<open>createChildLogger\<close> are functions. A call \<open>logger.m(...)\<close> of anything else raises a
  \<open>TypeError\<close>.
\<close>

definition logger_functions :: "string list" where
  "logger_functions = [''expressLogger'', ''createChildLogger'']"

definition logger_call :: "string \<Rightarrow> string + unit" where
  "logger_call m =
     (if m \<in> set logger_functions then Inr ()
      else Inl (''logger.'' @ m @ '' is not a function''))"

text \<open>
  \<open>syncLedger\<close> (ledgerSync.js): the result or the message of the error thrown, and the
  batches handed to \<open>updateLedger\<close> during the call. The body of the \<open>try\<close> comes first:
  the availability test with its \<open>logger.warn\<close> ahead of the \<open>throw\<close>, the update, then
  \<open>logger.info\<close> ahead of the \<open>return\<close>. An error of the body reaches the \<open>catch\<close>, which
  calls \<open>ErrorHandler.handleError\<close> (console output only) and \<open>logger.error\<close> before it
  throws the error again.
\<close>

definition syncLedger_try :: "ledger_db \<Rightarrow> jsval \<Rightarrow> (string + string) \<times> jsval list" where
  "syncLedger_try db ledgerData =
     (if \<not> isOpenForNewUsers db
      then (case logger_call ''warn'' of
              Inl m \<Rightarrow> (Inl m, [])
            | Inr _ \<Rightarrow> (Inl ''Database is not open for new users'', []))
      else (case updateLedger db ledgerData of
              Some m \<Rightarrow> (Inl m, [ledgerData])
            | None \<Rightarrow>
               (case logger_call ''info'' of
                  Inl m \<Rightarrow> (Inl m, [ledgerData])
                | Inr _ \<Rightarrow> (Inr ''success'', [ledgerData]))))"

definition syncLedger :: "ledger_db \<Rightarrow> jsval \<Rightarrow> (string + string) \<times> jsval list" where
  "syncLedger db ledgerData =
     (case syncLedger_try db ledgerData of
        (Inr status, calls) \<Rightarrow> (Inr status, calls)
      | (Inl m, calls) \<Rightarrow>
         (case logger_call ''error'' of
            Inl m' \<Rightarrow> (Inl m', calls)
          | Inr _ \<Rightarrow> (Inl m, calls)))"

fun payload_message :: "payload \<Rightarrow> string option" where
  "payload_message (Message m) = Some m"
| "payload_message p = None"

fun payload_ledgerData :: "payload \<Rightarrow> jsval" where
  "payload_ledgerData (Ledger d) = d"
| "payload_ledgerData p = JUndefined"

text \<open>
  \<open>handleHandshake\<close>, \<open>handlePeersList\<close>, \<open>handleNewTriad\<close>, \<open>handleTriadValidation\<close>,
  \<open>handleTriadValidated\<close> and \<open>handleStatusRequest\<close> are called by \<open>handleMessage\<close> but are
  not in the source: they are a parameter, from the handler's name, the node, the socket,
  the envelope and the peer id to the node they leave and the message of the error they
  throw, if any.
\<close>

type_synonym absent_handlers =
  "string \<Rightarrow> node \<Rightarrow> nat \<Rightarrow> envelope \<Rightarrow> string \<Rightarrow> string option \<times> node"

definition invalid_format :: "node \<Rightarrow> nat \<Rightarrow> string \<Rightarrow> node" where
  "invalid_format n ws m =
     sendMessage (n\<lparr> node_lastError := Some m \<rparr>) ws
       \<lparr> msg_type = MT_ERROR, msg_payload = Some (Message ''Invalid message format'') \<rparr>"

definition handle_sync_ledger :: "node \<Rightarrow> nat \<Rightarrow> envelope \<Rightarrow> node" where
  "handle_sync_ledger n ws message =
     (case dbConnection n of
        None \<Rightarrow>
          sendMessage n ws
            \<lparr> msg_type = MT_ERROR,
              msg_payload = Some (Message ''Database connection not available for ledger sync'') \<rparr>
      | Some db \<Rightarrow>
         (case msg_payload message of
            None \<Rightarrow>
              sendMessage n ws
                \<lparr> msg_type = MT_ERROR,
                  msg_payload = Some (Message
                    ''Cannot read properties of undefined (reading 'ledgerData')'') \<rparr>
          | Some p \<Rightarrow>
             (case syncLedger db (payload_ledgerData p) of
                (Inr status, calls) \<Rightarrow>
                  sendMessage (n\<lparr> ledger_calls := ledger_calls n @ calls \<rparr>) ws
                    \<lparr> msg_type = MT_SYNC_LEDGER_CONFIRMATION, msg_payload = Some (Status status) \<rparr>
              | (Inl m, calls) \<Rightarrow>
                  sendMessage (n\<lparr> ledger_calls := ledger_calls n @ calls \<rparr>) ws
                    \<lparr> msg_type = MT_ERROR, msg_payload = Some (Message m) \<rparr>)))"

text \<open>
  \<open>handleMessage\<close>: parse, look the peer up, dispatch on the type. An error that reaches
  the outer \<open>catch\<close> is recorded in \<open>lastError\<close> (the parser's message is abbreviated) and
  answered with \<open>Invalid message format\<close>.
\<close>

definition handleMessage :: "absent_handlers \<Rightarrow> node \<Rightarrow> nat \<Rightarrow> incoming \<Rightarrow> string \<Rightarrow> node" where
  "handleMessage ext n ws messageBuffer peerId =
     (case messageBuffer of
        Malformed \<Rightarrow> invalid_format n ws ''Unexpected token in JSON''
      | Parsed message \<Rightarrow>
         (case map_of (peers n) peerId of
            None \<Rightarrow> socket_terminate n ws
          | Some p \<Rightarrow>
             (if msg_type message = MT_HANDSHAKE then
                (case ext ''handleHandshake'' n ws message peerId of
                   (None, n1) \<Rightarrow> n1
                 | (Some m, n1) \<Rightarrow> invalid_format n1 ws m)
              else if msg_type message = MT_DISCOVERY then
                sendMessage n ws
                  \<lparr> msg_type = MT_PEERS, msg_payload = Some (Addresses (getPeerAddresses n)) \<rparr>
              else if msg_type message = MT_PEERS then
                snd (ext ''handlePeersList'' n ws message peerId)
              else if msg_type message = MT_NEW_TRIAD then
                snd (ext ''handleNewTriad'' n ws message peerId)
              else if msg_type message = MT_VALIDATE_TRIAD then
                snd (ext ''handleTriadValidation'' n ws message peerId)
              else if msg_type message = MT_TRIAD_VALIDATED then
                snd (ext ''handleTriadValidated'' n ws message peerId)
              else if msg_type message = MT_GET_STATUS then
                snd (ext ''handleStatusRequest'' n ws message peerId)
              else if msg_type message = MT_ERROR then
                (case msg_payload message of
                   None \<Rightarrow>
                     invalid_format n ws ''Cannot read properties of undefined (reading 'message')''
                 | Some pl \<Rightarrow> n\<lparr> node_lastError := payload_message pl \<rparr>)
              else if msg_type message = MT_SYNC_LEDGER then
                handle_sync_ledger n ws message
              else
                sendMessage
                  (n\<lparr> node_lastError := Some (''Unknown message type: '' @ msg_type message) \<rparr>) ws
                  \<lparr> msg_type = MT_ERROR,
                    msg_payload = Some (Message (''Unknown message type: '' @ msg_type message)) \<rparr>)))"

text \<open>A node with no peers, as it stands once the server listens.\<close>

definition fresh_node :: "int \<Rightarrow> ledger_db option \<Rightarrow> node" where
  "fresh_node cap db =
     \<lparr> nodeId = ''node-1'', port = 6001, peers = [], maxPeers = cap, node_lastError = None,
       dbConnection = db, advertised_address = None,
       sockets = (\<lambda>_. \<lparr> readyState = CLOSED, outbox = [] \<rparr>), next_socket = 0,
       ledger_calls = [], node_emitted = [] \<rparr>"

section \<open>Example states\<close>

text \<open>
  The states used to run the operations on concrete inputs: a store of dimensions 3,
  complexity 4 and threshold 0.67 in which \<open>V1\<close> creates the triad \<open>a1\<close> at the origin,
  then \<open>V2\<close> is registered (\<open>store_one\<close>), then a second triad \<open>b2\<close> is created one step
  along the first axis (\<open>store_two\<close>), then a third with the same samples (\<open>store_three\<close>);
  \<open>store_validated\<close> is \<open>store_one\<close> after \<open>V2\<close> has validated \<open>a1\<close>.
\<close>

definition example_entropy :: "string \<Rightarrow> nat \<Rightarrow> real \<Rightarrow> entropy" where
  "example_entropy i n r =
     \<lparr> rand_id = i, clock = n, clock_save = n + 1, rnd_x = r, rnd_y = 0, rnd_z = 0 \<rparr>"

definition triad_A :: triad where
  "triad_A = \<lparr> triad_id = ''a1'', data = JStr ''payload'', validator = ''V1'', timestamp = 1,
               position = \<lparr> pos_x = 0, pos_y = 0, pos_z = 0 \<rparr>, connections = [],
               validated = False, consensus = 0, validationAttempts = 0 \<rparr>"

definition triad_B :: triad where
  "triad_B = \<lparr> triad_id = ''b2'', data = JStr ''other'', validator = ''V1'', timestamp = 5,
               position = \<lparr> pos_x = 1, pos_y = 0, pos_z = 0 \<rparr>, connections = [],
               validated = False, consensus = 0, validationAttempts = 0 \<rparr>"

definition triad_C :: triad where
  "triad_C = \<lparr> triad_id = ''c3'', data = JStr ''third'', validator = ''V1'', timestamp = 9,
               position = \<lparr> pos_x = 1, pos_y = 0, pos_z = 0 \<rparr>, connections = [],
               validated = False, consensus = 0, validationAttempts = 0 \<rparr>"

definition triad_A_validated :: triad where
  "triad_A_validated = triad_A\<lparr> consensus := 7 / 10, validationAttempts := 1, validated := True \<rparr>"

definition store_created :: store where
  "store_created =
     snd (createTriad (fresh_store 3 4 (67 / 100)) (example_entropy ''a1'' 1 0)
            (JStr ''payload'') ''V1'')"

definition store_one :: store where
  "store_one = snd (addValidator store_created ''V2'' 3)"

definition store_two :: store where
  "store_two = snd (createTriad store_one (example_entropy ''b2'' 5 (1 / 2)) (JStr ''other'') ''V1'')"

definition store_three :: store where
  "store_three = snd (createTriad store_two (example_entropy ''c3'' 9 (1 / 2)) (JStr ''third'') ''V1'')"

definition store_validated :: store where
  "store_validated = snd (validateTriad store_one ''a1'' ''V2'')"

text \<open>
  A store constructed with \<open>dimensions: 2.5\<close>, which \<open>validateDimensions\<close> keeps, on an
  empty database.
\<close>

definition store_fractional :: store where
  "store_fractional = fresh_store (5 / 2) 4 (67 / 100)"

text \<open>
  Three ledger collaborators (closed, open, open with a failing update), no behaviour for
  the handlers that are not in the source, and a node with one inbound peer \<open>p1\<close> on the
  open socket 0.
\<close>

definition open_db :: ledger_db where
  "open_db = \<lparr> isOpenForNewUsers = True, updateLedger = (\<lambda>d. None) \<rparr>"

definition closed_db :: ledger_db where
  "closed_db = \<lparr> isOpenForNewUsers = False, updateLedger = (\<lambda>d. None) \<rparr>"

definition failing_db :: ledger_db where
  "failing_db = \<lparr> isOpenForNewUsers = True, updateLedger = (\<lambda>d. Some ''Update failed'') \<rparr>"

definition no_handlers :: absent_handlers where
  "no_handlers name n ws message peerId = (None, n)"

definition node_with_peer :: "ledger_db option \<Rightarrow> node" where
  "node_with_peer db =
     handleNewConnection
       ((fresh_node 10 db)\<lparr> sockets := (sockets (fresh_node 10 db))
                                         (0 := \<lparr> readyState = OPEN, outbox = [] \<rparr>),
                             next_socket := 1 \<rparr>)
       0 ''p1'' 7"

definition sync_request :: envelope where
  "sync_request = \<lparr> msg_type = ''SYNC_LEDGER'', msg_payload = Some (Ledger (JStr ''batch'')) \<rparr>"

text \<open>
  A node capped at one peer that starts two outbound connections before either has
  opened, and the same node after both sockets have opened.
\<close>

definition node_after_connects :: node where
  "node_after_connects =
     fst (connectToPeer (fst (connectToPeer (fresh_node 1 None) ''ws://a:6001'' ''u1''))
            ''ws://b:6001'' ''u2'')"

definition node_after_opens :: node where
  "node_after_opens =
     outgoing_open (outgoing_open node_after_connects 0 ''outgoing-u1'' ''ws://a:6001'' 5)
       1 ''outgoing-u2'' ''ws://b:6001'' 6"

section \<open>Evaluating the example states\<close>

lemma validateValidator_examples:
  "validateValidator ''V1'' = Inr ()" "validateValidator ''V2'' = Inr ()"
  "validateValidator ''ghost'' = Inr ()"
  by (simp_all add: validateValidator_def trim_def is_js_space_def)

lemma store_created_eq:
  "store_created =
     \<lparr> dimensions = 3, complexity = 4, consensusThreshold = 67 / 100,
       matrix = [triad_A], triads = [(''a1'', triad_A)], validators = [],
       isInitialized = True, lastError = None,
       db_triads = [''a1'' \<mapsto> triad_A],
       db_metadata = Some \<lparr> md_dimensions = 3, md_complexity = 4,
                             md_consensusThreshold = 67 / 100,
                             md_validators = [], lastUpdated = 2, triadsCount = 1,
                             validatedTriadsCount = 0 \<rparr>,
       dbWrites = [''matrix:state_metadata'', ''triad:a1'', ''matrix:state_metadata''],
       emitted = [TriadCreated triad_A] \<rparr>"
  by (simp add: store_created_def createTriad_def fresh_store_def example_entropy_def
      validateInitialization_def validateTriadData_def validateValidator_examples
      calculateOptimalPosition_def saveMatrixState_def triad_A_def Let_def)

lemma store_one_eq:
  "store_one =
     \<lparr> dimensions = 3, complexity = 4, consensusThreshold = 67 / 100,
       matrix = [triad_A], triads = [(''a1'', triad_A)], validators = [''V2''],
       isInitialized = True, lastError = None,
       db_triads = [''a1'' \<mapsto> triad_A],
       db_metadata = Some \<lparr> md_dimensions = 3, md_complexity = 4,
                             md_consensusThreshold = 67 / 100,
                             md_validators = [''V2''], lastUpdated = 3, triadsCount = 1,
                             validatedTriadsCount = 0 \<rparr>,
       dbWrites = [''matrix:state_metadata'', ''triad:a1'', ''matrix:state_metadata'',
                   ''matrix:state_metadata''],
       emitted = [TriadCreated triad_A] \<rparr>"
  by (simp add: store_one_def store_created_eq addValidator_def validateValidator_examples
      saveMatrixState_def triad_A_def Let_def)

lemma createTriad_store_one:
  "createTriad store_one (example_entropy ''b2'' 5 (1 / 2)) (JStr ''other'') ''V1'' =
     (Inr triad_B,
      \<lparr> dimensions = 3, complexity = 4, consensusThreshold = 67 / 100,
        matrix = [triad_A, triad_B], triads = [(''a1'', triad_A), (''b2'', triad_B)],
        validators = [''V2''],
        isInitialized = True, lastError = None,
        db_triads = [''a1'' \<mapsto> triad_A, ''b2'' \<mapsto> triad_B],
        db_metadata = Some \<lparr> md_dimensions = 3, md_complexity = 4,
                              md_consensusThreshold = 67 / 100,
                              md_validators = [''V2''], lastUpdated = 6, triadsCount = 2,
                              validatedTriadsCount = 0 \<rparr>,
        dbWrites = [''matrix:state_metadata'', ''triad:a1'', ''matrix:state_metadata'',
                    ''matrix:state_metadata'', ''triad:b2'', ''matrix:state_metadata''],
        emitted = [TriadCreated triad_A, TriadCreated triad_B] \<rparr>)"
  by (simp add: store_one_eq createTriad_def example_entropy_def
      validateInitialization_def validateTriadData_def validateValidator_examples
      calculateOptimalPosition_def saveMatrixState_def triad_A_def triad_B_def Let_def)

lemma store_one_facts:
  "isInitialized store_one" "db_triads store_one ''a1'' = Some triad_A"
  "matrix store_one = [triad_A]" "validators store_one = [''V2'']"
  "consensusThreshold store_one = 67 / 100" "dimensions store_one = 3"
  "complexity store_one = 4" "map_of (triads store_one) ''a1'' = Some triad_A"
  by (simp_all add: store_one_eq)

lemma store_two_facts:
  "isInitialized store_two" "db_triads store_two ''b2'' = Some triad_B"
  "db_triads store_two ''a1'' = Some triad_A"
  "matrix store_two = [triad_A, triad_B]" "validators store_two = [''V2'']"
  "consensusThreshold store_two = 67 / 100" "dimensions store_two = 3"
  "complexity store_two = 4"
  by (simp_all add: store_two_def createTriad_store_one)

lemma createTriad_store_two:
  "fst (createTriad store_two (example_entropy ''c3'' 9 (1 / 2)) (JStr ''third'') ''V1'')
     = Inr triad_C"
  by (simp add: createTriad_def store_two_facts example_entropy_def
      validateInitialization_def validateTriadData_def validateValidator_examples
      calculateOptimalPosition_def triad_C_def Let_def)

lemma triad_A_facts:
  "\<not> validated triad_A" "validationAttempts triad_A = 0" "triad_id triad_A = ''a1''"
  "consensus triad_A = 0"
  by (simp_all add: triad_A_def)

lemma triad_B_facts:
  "\<not> validated triad_B" "validationAttempts triad_B = 0" "triad_id triad_B = ''b2''"
  "consensus triad_B = 0"
  by (simp_all add: triad_B_def)

lemma calculateDistance_sym: "calculateDistance p q = calculateDistance q p"
  by (simp add: calculateDistance_def power2_commute)

lemma distance_A_B: "calculateDistance (position triad_B) (position triad_A) = 1"
  by (simp add: calculateDistance_def triad_A_def triad_B_def)

lemma calculateConsensus_store_one: "calculateConsensus store_one triad_A ''V2'' = 7 / 10"
  by (simp add: calculateConsensus_def getTriadConnections_def store_one_eq)

lemma getTriadConnections_store_two:
  "getTriadConnections store_two triad_B = [triad_A]"
  "getTriadConnections store_two triad_A = [triad_B]"
  by (simp_all add: getTriadConnections_def store_two_facts triad_A_facts triad_B_facts
      distance_A_B calculateDistance_sym [of "position triad_A" "position triad_B"])


section \<open>Scoring and validation\<close>






text \<open>The two ways a well-formed call on a stored triad ends.\<close>

lemma validateTriad_already_validated:
  assumes "isInitialized s" "triadId \<noteq> []" "db_triads s triadId = Some t" "validated t"
    "validateValidator v = Inr ()"
  shows "validateTriad s triadId v = (Inr t, s)"
  using assms
  by (simp add: validateTriad_def validateInitialization_def getTriadById_def Let_def)

lemma validateTriad_unvalidated_state:
  assumes "isInitialized s" "triadId \<noteq> []" "db_triads s triadId = Some t" "\<not> validated t"
    "validateValidator v = Inr ()"
  shows "validateTriad s triadId v =
     (let t1 = t\<lparr> consensus := calculateConsensus s t v,
                   validationAttempts := validationAttempts t + 1 \<rparr>;
          t2 = (if calculateConsensus s t v \<ge> consensusThreshold s
                then t1\<lparr> validated := True \<rparr> else t1)
      in (Inr t2, s\<lparr> db_triads := (db_triads s)(triadId \<mapsto> t2),
                     dbWrites := dbWrites s @ [''triad:'' @ triadId],
                     emitted := emitted s @ [TriadValidated t2] \<rparr>))"
  using assms
  by (simp add: validateTriad_def validateInitialization_def getTriadById_def Let_def)

text \<open>
  Whatever the arguments, \<open>validateTriad\<close> writes neither to the mirror nor to the
  metadata record, and it never overwrites a record that is already validated.
\<close>

lemma validateTriad_mirror_untouched:
  "matrix (snd (validateTriad s i v)) = matrix s
   \<and> triads (snd (validateTriad s i v)) = triads s
   \<and> db_metadata (snd (validateTriad s i v)) = db_metadata s"
  by (auto simp: validateTriad_def validateInitialization_def getTriadById_def Let_def
      validate_fail_def split: sum.splits option.splits if_splits)

lemma validateTriad_keeps_validated:
  assumes "db_triads s k = Some t" "validated t"
  shows "db_triads (snd (validateTriad s i v)) k = Some t"
  using assms
  by (auto simp: validateTriad_def validateInitialization_def getTriadById_def Let_def
      validate_fail_def split: sum.splits option.splits if_splits)

lemma validateTriad_calls_keep_validated:
  assumes "db_triads s k = Some t" "validated t"
  shows "db_triads (validateTriad_calls s cs) k = Some t"
  using assms
proof (induction cs arbitrary: s)
  case Nil
  then show ?case by simp
next
  case (Cons c cs)
  obtain i v where c: "c = (i, v)" by (cases c)
  from Cons.prems have "db_triads (snd (validateTriad s i v)) k = Some t"
    by (rule validateTriad_keeps_validated)
  from Cons.IH [OF this Cons.prems(2)] show ?case by (simp add: c)
qed

text \<open>
  \<open>createTriad\<close> and \<open>addValidator\<close> write through: the new record is in the mirror and
  in the database, and the metadata record is the last thing written.
\<close>

lemma createTriad_returns:
  assumes "createTriad s e d v = (Inr t, s')"
  shows "position t = calculateOptimalPosition s e \<and> dimensions s' = dimensions s
         \<and> triad_id t = rand_id e"
  using assms
  by (auto simp: createTriad_def saveMatrixState_def Let_def split: sum.splits)

lemma createTriad_writes_through:
  assumes "createTriad s e d v = (Inr t, s')"
  shows "db_triads s' (triad_id t) = Some t \<and> map_of (triads s') (triad_id t) = Some t
         \<and> matrix s' = matrix s @ [t]
         \<and> dbWrites s' = dbWrites s @ [''triad:'' @ triad_id t, ''matrix:state_metadata'']
         \<and> map_option triadsCount (db_metadata s') = Some (length (matrix s'))"
  using assms
  by (auto simp: createTriad_def saveMatrixState_def Let_def update_Some_unfold
      split: sum.splits)

lemma addValidator_writes_metadata:
  assumes "addValidator s v now = (Inr True, s')"
  shows "validators s' = validators s @ [v]
         \<and> map_option md_validators (db_metadata s') = Some (validators s')
         \<and> dbWrites s' = dbWrites s @ [''matrix:state_metadata'']"
  using assms
  by (auto simp: addValidator_def saveMatrixState_def Let_def split: sum.splits if_splits)

lemma validateTriad_store_one:
  "validateTriad store_one ''a1'' ''V2'' =
     (Inr triad_A_validated,
      store_one\<lparr> db_triads := (db_triads store_one)(''a1'' \<mapsto> triad_A_validated),
                 dbWrites := dbWrites store_one @ [''triad:a1''],
                 emitted := emitted store_one @ [TriadValidated triad_A_validated] \<rparr>)"
  using validateTriad_unvalidated_state [of store_one "''a1''" triad_A "''V2''"]
  by (simp add: store_one_facts triad_A_facts validateValidator_examples
      calculateConsensus_store_one triad_A_validated_def Let_def)

lemma store_validated_facts:
  "isInitialized store_validated" "db_triads store_validated ''a1'' = Some triad_A_validated"
  "matrix store_validated = [triad_A]" "map_of (triads store_validated) ''a1'' = Some triad_A"
  "db_metadata store_validated = db_metadata store_one"
  "dbWrites store_validated = dbWrites store_one @ [''triad:a1'']"
  by (simp_all add: store_validated_def validateTriad_store_one store_one_facts)

section \<open>Claims about the triad store\<close>

text \<open>
  C1. The claim asks that after every mutating operation the mirror agrees with the
  persisted records and the metadata record has been rewritten, in particular after a
  \<open>validateTriad\<close> call that changes the score, the attempts or the flag. The code does
  this in \<open>createTriad\<close> and \<open>addValidator\<close> but not in \<open>validateTriad\<close>: run on
  \<open>store_one\<close>, the call returns and persists the updated record (validated, consensus
  0.7, one attempt), while the entry of the id-indexed map and of the flat list is still
  the record as created, and the metadata record is the old one, with a count of zero
  validated triads; the only key written is \<open>triad:a1\<close>.
\<close>

theorem validateTriad_leaves_mirror_stale:
  "fst (validateTriad store_one ''a1'' ''V2'') = Inr triad_A_validated
   \<and> store_validated = snd (validateTriad store_one ''a1'' ''V2'')
   \<and> db_triads store_validated ''a1'' = Some triad_A_validated
   \<and> map_of (triads store_validated) ''a1'' = Some triad_A
   \<and> matrix store_validated = [triad_A]
   \<and> triad_A \<noteq> triad_A_validated
   \<and> db_metadata store_validated = db_metadata store_one
   \<and> map_option validatedTriadsCount (db_metadata store_validated) = Some 0
   \<and> dbWrites store_validated = dbWrites store_one @ [''triad:a1'']"
proof -
  have differ: "triad_A \<noteq> triad_A_validated"
    by (simp add: triad_A_validated_def triad_A_def)
  have count: "map_option validatedTriadsCount (db_metadata store_one) = Some 0"
    by (simp add: store_one_eq)
  have run: "store_validated = snd (validateTriad store_one ''a1'' ''V2'')"
    by (simp add: store_validated_def)
  have returned: "fst (validateTriad store_one ''a1'' ''V2'') = Inr triad_A_validated"
    by (simp add: validateTriad_store_one)
  have meta: "map_option validatedTriadsCount (db_metadata store_validated) = Some 0"
    using count by (simp add: store_validated_facts)
  from returned run store_validated_facts(2,4,3) differ store_validated_facts(5) meta
    store_validated_facts(6)
  show ?thesis by blast
qed

text \<open>
  C2, as stated, fails. In \<open>store_two\<close> the triad \<open>b2\<close> has the neighbour \<open>a1\<close> at
  distance 1, within the complexity 4, and \<open>ghost\<close> is not registered. The claim gives
  the score \<open>0.3 * ((1 - 1/4) / 2) = 9/80\<close>; the code returns 0 before it looks at any
  neighbour.
\<close>

theorem unregistered_validator_neighbor_term_counterexample:
  "''ghost'' \<notin> set (validators store_two) \<and> validateValidator ''ghost'' = Inr ()
   \<and> db_triads store_two ''b2'' = Some triad_B \<and> \<not> validated triad_B
   \<and> getTriadConnections store_two triad_B = [triad_A]
   \<and> calculateDistance (position triad_A) (position triad_B) = 1
   \<and> spec_neighbor_only_score store_two triad_B = 9 / 80
   \<and> map_sum id consensus (fst (validateTriad store_two ''b2'' ''ghost'')) = Inr 0
   \<and> map_sum id consensus (fst (validateTriad store_two ''b2'' ''ghost''))
       \<noteq> Inr (spec_neighbor_only_score store_two triad_B)"
proof -
  have d: "calculateDistance (position triad_A) (position triad_B) = 1"
    using distance_A_B by (simp add: calculateDistance_sym)
  have spec: "spec_neighbor_only_score store_two triad_B = 9 / 80"
    by (simp add: spec_neighbor_only_score_def store_two_facts triad_A_facts triad_B_facts
        d distance_A_B)
  have "calculateConsensus store_two triad_B ''ghost'' = 0"
    by (simp add: calculateConsensus_def store_two_facts)
  hence "map_sum id consensus (fst (validateTriad store_two ''b2'' ''ghost'')) = Inr 0"
    using validateTriad_unvalidated_state [of store_two "''b2''" triad_B "''ghost''"]
    by (simp add: store_two_facts triad_B_facts validateValidator_examples Let_def)
  thus ?thesis
    using d spec
    by (simp add: store_two_facts triad_B_facts validateValidator_examples
        getTriadConnections_store_two)
qed

text \<open>
  C2, amended. For every unvalidated stored triad and every well-formed validator id
  that is not in the registry, \<open>validateTriad\<close> increments \<open>validationAttempts\<close> by exactly
  1 and sets the consensus to 0, whatever the neighbours; the triad is marked validated
  only if the threshold is not positive. The record returned is the record stored under
  the triad's key, and it is the one announced by the event.
\<close>

theorem unregistered_validator_scores_zero:
  assumes "isInitialized s" "triadId \<noteq> []" "db_triads s triadId = Some t" "\<not> validated t"
    and "validateValidator v = Inr ()" "v \<notin> set (validators s)"
  shows "\<exists>r s'. validateTriad s triadId v = (Inr r, s')
           \<and> validationAttempts r = validationAttempts t + 1
           \<and> consensus r = 0
           \<and> (validated r \<longleftrightarrow> consensusThreshold s \<le> 0)
           \<and> db_triads s' triadId = Some r
           \<and> dbWrites s' = dbWrites s @ [''triad:'' @ triadId]
           \<and> emitted s' = emitted s @ [TriadValidated r]"
proof -
  have "calculateConsensus s t v = 0"
    using assms(6) by (simp add: calculateConsensus_def)
  thus ?thesis
    using validateTriad_unvalidated_state [OF assms(1-5)] assms(4) by (simp add: Let_def)
qed

theorem unregistered_validator_scores_zero_witness:
  "isInitialized store_two \<and> db_triads store_two ''b2'' = Some triad_B \<and> \<not> validated triad_B
   \<and> validateValidator ''ghost'' = Inr () \<and> ''ghost'' \<notin> set (validators store_two)
   \<and> map_sum id validationAttempts (fst (validateTriad store_two ''b2'' ''ghost'')) = Inr 1
   \<and> map_sum id consensus (fst (validateTriad store_two ''b2'' ''ghost'')) = Inr 0
   \<and> map_sum id validated (fst (validateTriad store_two ''b2'' ''ghost'')) = Inr False
   \<and> map_option validationAttempts
        (db_triads (snd (validateTriad store_two ''b2'' ''ghost'')) ''b2'') = Some 1
   \<and> map_option consensus
        (db_triads (snd (validateTriad store_two ''b2'' ''ghost'')) ''b2'') = Some 0
   \<and> Inr (db_triads (snd (validateTriad store_two ''b2'' ''ghost'')) ''b2'')
        = map_sum id Some (fst (validateTriad store_two ''b2'' ''ghost''))"
  using unregistered_validator_scores_zero [of store_two "''b2''" triad_B "''ghost''"]
  by (auto simp: store_two_facts triad_B_facts validateValidator_examples)

text \<open>
  C3. With dimensions 3, complexity 4 and threshold 0.67, when the matrix holds exactly
  one triad \<open>A\<close>, freshly created, and a registered validator \<open>V2\<close> validates it, the
  returned record has consensus 0.7, is validated and counts one attempt: \<open>A\<close> has no
  neighbour, so the score is the base term.
\<close>

theorem validateTriad_single_triad_scenario:
  assumes "dimensions s = 3" "complexity s = 4" "consensusThreshold s = 67 / 100"
    and "isInitialized s" "matrix s = [A]" "triad_id A \<noteq> []"
    and "db_triads s (triad_id A) = Some A" "\<not> validated A" "validationAttempts A = 0"
    and "V2 \<in> set (validators s)" "validateValidator V2 = Inr ()"
  shows "\<exists>r s'. validateTriad s (triad_id A) V2 = (Inr r, s')
           \<and> consensus r = 7 / 10 \<and> validated r \<and> validationAttempts r = 1
           \<and> r = A\<lparr> consensus := 7 / 10, validationAttempts := 1, validated := True \<rparr>
           \<and> getTriadConnections s A = []"
proof -
  have conns: "getTriadConnections s A = []"
    using assms(5) by (simp add: getTriadConnections_def)
  have score: "calculateConsensus s A V2 = 7 / 10"
    using assms(10) conns by (simp add: calculateConsensus_def)
  show ?thesis
    using validateTriad_unvalidated_state [OF assms(4) assms(6) assms(7) assms(8) assms(11)]
    by (simp add: score conns assms(3) assms(9) Let_def)
qed

theorem validateTriad_single_triad_scenario_witness:
  "dimensions store_one = 3 \<and> complexity store_one = 4 \<and> consensusThreshold store_one = 67 / 100
   \<and> isInitialized store_one \<and> matrix store_one = [triad_A]
   \<and> db_triads store_one (triad_id triad_A) = Some triad_A
   \<and> ''V2'' \<in> set (validators store_one)
   \<and> map_sum id consensus (fst (validateTriad store_one ''a1'' ''V2'')) = Inr (7 / 10)
   \<and> map_sum id validated (fst (validateTriad store_one ''a1'' ''V2'')) = Inr True
   \<and> map_sum id validationAttempts (fst (validateTriad store_one ''a1'' ''V2'')) = Inr 1"
  using validateTriad_single_triad_scenario [of store_one triad_A "''V2''"]
  by (auto simp: store_one_facts triad_A_facts validateValidator_examples)

text \<open>
  C4. For a stored triad whose \<open>validated\<close> flag is true and a well-formed validator id,
  \<open>validateTriad\<close> returns the stored record and leaves the whole state as it was: no
  score is computed, nothing is written, nothing is emitted. And after any sequence of
  \<open>validateTriad\<close> calls (on any ids, by any validators, failing or not) the stored
  record is still that same validated record.
\<close>

theorem validateTriad_validated_is_noop:
  assumes "isInitialized s" "triadId \<noteq> []" "db_triads s triadId = Some t" "validated t"
    and "validateValidator v = Inr ()"
  shows "validateTriad s triadId v = (Inr t, s)
         \<and> db_triads (validateTriad_calls s calls) triadId = Some t"
  using validateTriad_already_validated [OF assms]
    validateTriad_calls_keep_validated [OF assms(3,4)]
  by simp

theorem validateTriad_validated_is_noop_witness:
  "isInitialized store_validated \<and> db_triads store_validated ''a1'' = Some triad_A_validated
   \<and> validated triad_A_validated \<and> validateValidator ''ghost'' = Inr ()
   \<and> validateTriad store_validated ''a1'' ''ghost'' = (Inr triad_A_validated, store_validated)
   \<and> db_triads (validateTriad_calls store_validated [(''a1'', ''V2''), (''a1'', ''ghost'')]) ''a1''
       = Some triad_A_validated"
  using validateTriad_validated_is_noop [of store_validated "''a1''" triad_A_validated "''ghost''"
      "[(''a1'', ''V2''), (''a1'', ''ghost'')]"]
  by (simp add: store_validated_facts validateValidator_examples triad_A_validated_def)



text \<open>
  C9, as stated, fails: 2.5 is not an integer, yet \<open>validateDimensions\<close> and
  \<open>validateComplexity\<close> keep it instead of falling back to 3 and 4.
\<close>

theorem validate_config_non_integer_counterexample:
  "\<not> spec_positive_integer (JNum (Fin (5 / 2)))
   \<and> validateDimensions (JNum (Fin (5 / 2))) = Fin (5 / 2)
   \<and> validateDimensions (JNum (Fin (5 / 2))) \<noteq> DEFAULT_DIMENSIONS
   \<and> validateComplexity (JNum (Fin (5 / 2))) = Fin (5 / 2)
   \<and> validateComplexity (JNum (Fin (5 / 2))) \<noteq> DEFAULT_COMPLEXITY"
  by (simp add: DEFAULT_DIMENSIONS_def DEFAULT_COMPLEXITY_def)

text \<open>
  C9, amended. An option that is not of type number yields the default (3, 4, 0.67). A
  finite \<open>dimensions\<close> or \<open>complexity\<close> is kept when it is greater than 0, integer or not,
  and replaced by the default otherwise; a finite threshold is kept when it lies in
  \<open>(0, 1]\<close> and replaced by 0.67 otherwise. Negative infinity yields the three defaults
  and positive infinity the default threshold.
\<close>

theorem validate_config_defaults:
  "(typeof v \<noteq> ''number'' \<longrightarrow>
      validateDimensions v = Fin 3 \<and> validateComplexity v = Fin 4
      \<and> validateConsensusThreshold v = Fin (67 / 100))
   \<and> validateDimensions (JNum (Fin r)) = (if 0 < r then Fin r else Fin 3)
   \<and> validateComplexity (JNum (Fin r)) = (if 0 < r then Fin r else Fin 4)
   \<and> validateConsensusThreshold (JNum (Fin r)) =
        (if 0 < r \<and> r \<le> 1 then Fin r else Fin (67 / 100))
   \<and> validateDimensions (JNum NegInf) = Fin 3
   \<and> validateComplexity (JNum NegInf) = Fin 4
   \<and> validateConsensusThreshold (JNum NegInf) = Fin (67 / 100)
   \<and> validateConsensusThreshold (JNum PosInf) = Fin (67 / 100)"
  by (cases v)
     (auto simp: DEFAULT_DIMENSIONS_def DEFAULT_COMPLEXITY_def DEFAULT_CONSENSUS_THRESHOLD_def)

theorem validate_config_defaults_witness:
  "typeof (JStr ''3'') \<noteq> ''number''
   \<and> validateDimensions (JStr ''3'') = Fin 3 \<and> validateComplexity (JStr ''3'') = Fin 4
   \<and> validateConsensusThreshold (JStr ''3'') = Fin (67 / 100)
   \<and> validateDimensions (JNum (Fin (5 / 2))) = Fin (5 / 2)
   \<and> validateComplexity (JNum (Fin (5 / 2))) = Fin (5 / 2)
   \<and> validateConsensusThreshold (JNum (Fin (5 / 2))) = Fin (67 / 100)"
  using validate_config_defaults [of "JStr ''3''" "5 / 2"]
  by simp

lemma floor_sample_range:
  assumes "0 \<le> r" "r < 1" "0 < (d::real)"
  shows "\<exists>i::nat. of_int \<lfloor>r * d\<rfloor> = real i \<and> real i < d"
proof -
  have lo: "0 \<le> \<lfloor>r * d\<rfloor>" using assms(1,3) by simp
  have "r * d < d" using assms(2,3) by simp
  moreover have "of_int \<lfloor>r * d\<rfloor> \<le> r * d" by simp
  ultimately have hi: "of_int \<lfloor>r * d\<rfloor> < d" by linarith
  let ?i = "nat \<lfloor>r * d\<rfloor>"
  have "(of_int \<lfloor>r * d\<rfloor> :: real) = real ?i" using lo by simp
  with hi show ?thesis by metis
qed

lemma card_grid_positions: "card (grid_positions d) = d ^ 3"
proof -
  have "inj_on (\<lambda>(i, j, k). \<lparr> pos_x = real i, pos_y = real j, pos_z = real k \<rparr>)
          ({..<d} \<times> {..<d} \<times> {..<d})"
    by (auto simp: inj_on_def)
  hence "card (grid_positions d) = card ({..<d} \<times> {..<d} \<times> {..<d})"
    unfolding grid_positions_def by (rule card_image)
  thus ?thesis by (simp add: card_cartesian_product power3_eq_cube)
qed

text \<open>
  C10, as stated, fails. The constructor keeps \<open>dimensions = 2.5\<close>; with the sample 0.9
  on the first axis \<open>createTriad\<close> returns \<open>x = floor (0.9 * 2.5) = 2\<close>, which is above
  \<open>dimensions - 1 = 1.5\<close>.
\<close>

theorem createTriad_fractional_dimensions_counterexample:
  "validateDimensions (JNum (Fin (5 / 2))) = Fin (5 / 2)
   \<and> dimensions store_fractional = 5 / 2
   \<and> random_ok (example_entropy ''d4'' 1 (9 / 10))
   \<and> map_sum id (pos_x \<circ> position)
        (fst (createTriad store_fractional (example_entropy ''d4'' 1 (9 / 10))
                (JStr ''payload'') ''V1'')) = Inr 2
   \<and> \<not> spec_coordinate_in_range (dimensions store_fractional) 2"
  by (simp add: store_fractional_def fresh_store_def createTriad_def example_entropy_def
      random_ok_def validateInitialization_def validateTriadData_def validateValidator_examples
      calculateOptimalPosition_def saveMatrixState_def spec_coordinate_in_range_def Let_def)

text \<open>
  C10, amended. On a store whose \<open>dimensions\<close> is a finite number greater than 0, every
  triad returned by \<open>createTriad\<close> has coordinates that are natural numbers strictly below
  \<open>dimensions\<close> (the samples are floored). When \<open>dimensions\<close> is the integer \<open>n\<close> each
  coordinate is in \<open>{0, ..., n - 1}\<close>: the position is one of the \<open>n ^ 3\<close> points of the
  grid. Nothing avoids a position already taken: a later \<open>createTriad\<close> that draws the same
  samples returns the same position.
\<close>

theorem createTriad_position_on_grid:
  assumes "createTriad s e d v = (Inr t, s')" "random_ok e" "0 < dimensions s"
  shows "(\<exists>i j k :: nat. position t = \<lparr> pos_x = real i, pos_y = real j, pos_z = real k \<rparr>
            \<and> real i < dimensions s \<and> real j < dimensions s \<and> real k < dimensions s)
         \<and> (dimensions s = real n \<longrightarrow>
              position t \<in> grid_positions n \<and> card (grid_positions n) = n ^ 3)
         \<and> (createTriad s' e' d' v' = (Inr t', s'') \<and> rnd_x e' = rnd_x e
              \<and> rnd_y e' = rnd_y e \<and> rnd_z e' = rnd_z e
            \<longrightarrow> position t' = position t)"
proof -
  have p: "position t = calculateOptimalPosition s e" and dim: "dimensions s' = dimensions s"
    using createTriad_returns [OF assms(1)] by simp_all
  from assms(2) have r: "0 \<le> rnd_x e" "rnd_x e < 1" "0 \<le> rnd_y e" "rnd_y e < 1"
    "0 \<le> rnd_z e" "rnd_z e < 1"
    by (simp_all add: random_ok_def)
  obtain i :: nat where i: "of_int \<lfloor>rnd_x e * dimensions s\<rfloor> = real i" "real i < dimensions s"
    using floor_sample_range [OF r(1,2) assms(3)] by blast
  obtain j :: nat where j: "of_int \<lfloor>rnd_y e * dimensions s\<rfloor> = real j" "real j < dimensions s"
    using floor_sample_range [OF r(3,4) assms(3)] by blast
  obtain k :: nat where k: "of_int \<lfloor>rnd_z e * dimensions s\<rfloor> = real k" "real k < dimensions s"
    using floor_sample_range [OF r(5,6) assms(3)] by blast
  have pos: "position t = \<lparr> pos_x = real i, pos_y = real j, pos_z = real k \<rparr>"
    using p i(1) j(1) k(1) by (simp add: calculateOptimalPosition_def)
  have coords: "\<exists>i j k :: nat. position t = \<lparr> pos_x = real i, pos_y = real j, pos_z = real k \<rparr>
            \<and> real i < dimensions s \<and> real j < dimensions s \<and> real k < dimensions s"
    using pos i(2) j(2) k(2) by blast
  have grid: "position t \<in> grid_positions n \<and> card (grid_positions n) = n ^ 3"
    if "dimensions s = real n"
  proof -
    have "(i, j, k) \<in> {..<n} \<times> {..<n} \<times> {..<n}" using i(2) j(2) k(2) that by simp
    hence "position t \<in> grid_positions n"
      unfolding grid_positions_def pos by (rule rev_image_eqI) simp
    thus ?thesis by (simp add: card_grid_positions)
  qed
  have again: "position t' = position t"
    if "createTriad s' e' d' v' = (Inr t', s'')" "rnd_x e' = rnd_x e" "rnd_y e' = rnd_y e"
      "rnd_z e' = rnd_z e"
    using createTriad_returns [OF that(1)] p dim that(2-4)
    by (simp add: calculateOptimalPosition_def)
  from coords grid again show ?thesis by blast
qed

theorem createTriad_position_on_grid_witness:
  "createTriad store_one (example_entropy ''b2'' 5 (1 / 2)) (JStr ''other'') ''V1''
     = (Inr triad_B, store_two)
   \<and> random_ok (example_entropy ''b2'' 5 (1 / 2)) \<and> 0 < dimensions store_one
   \<and> dimensions store_one = real 3
   \<and> position triad_B = \<lparr> pos_x = 1, pos_y = 0, pos_z = 0 \<rparr>
   \<and> position triad_B \<in> grid_positions 3 \<and> card (grid_positions 3) = 27
   \<and> fst (createTriad store_two (example_entropy ''c3'' 9 (1 / 2)) (JStr ''third'') ''V1'')
       = Inr triad_C
   \<and> triad_id triad_C \<noteq> triad_id triad_B \<and> position triad_C = position triad_B"
proof -
  have run: "createTriad store_one (example_entropy ''b2'' 5 (1 / 2)) (JStr ''other'') ''V1''
     = (Inr triad_B, store_two)"
    by (simp add: store_two_def createTriad_store_one)
  have ok: "random_ok (example_entropy ''b2'' 5 (1 / 2))"
    by (simp add: random_ok_def example_entropy_def)
  have dim: "0 < dimensions store_one" "dimensions store_one = real 3"
    by (simp_all add: store_one_facts)
  have pos: "position triad_B = \<lparr> pos_x = 1, pos_y = 0, pos_z = 0 \<rparr>"
    by (simp add: triad_B_def)
  have second: "createTriad store_two (example_entropy ''c3'' 9 (1 / 2)) (JStr ''third'') ''V1''
      = (Inr triad_C,
         snd (createTriad store_two (example_entropy ''c3'' 9 (1 / 2)) (JStr ''third'') ''V1''))"
    using createTriad_store_two by (simp add: prod_eq_iff)
  have ids: "triad_id triad_C \<noteq> triad_id triad_B"
    by (simp add: triad_B_def triad_C_def)
  have same: "rnd_x (example_entropy ''c3'' 9 (1 / 2)) = rnd_x (example_entropy ''b2'' 5 (1 / 2))"
    "rnd_y (example_entropy ''c3'' 9 (1 / 2)) = rnd_y (example_entropy ''b2'' 5 (1 / 2))"
    "rnd_z (example_entropy ''c3'' 9 (1 / 2)) = rnd_z (example_entropy ''b2'' 5 (1 / 2))"
    by (simp_all add: example_entropy_def)
  show ?thesis
    using createTriad_position_on_grid [OF run ok dim(1), of 3
        "example_entropy ''c3'' 9 (1 / 2)" "JStr ''third''" "''V1''" triad_C
        "snd (createTriad store_two (example_entropy ''c3'' 9 (1 / 2)) (JStr ''third'') ''V1'')"]
      run ok dim pos second ids same createTriad_store_two
    by simp
qed

section \<open>Claims about the peer network\<close>

lemma node_with_peer_facts:
  "map_of (peers (node_with_peer db)) ''p1'' =
     Some \<lparr> peer_ws = 0, peer_id = ''p1'', peer_direction = Incoming, peer_url = None,
            connectedAt = 7 \<rparr>"
  "readyState (sockets (node_with_peer db) 0) = OPEN"
  "dbConnection (node_with_peer db) = db"
  "ledger_calls (node_with_peer db) = []"
  "length (outbox (sockets (node_with_peer db) 0)) = 1"
  "getPublicAddress (node_with_peer db) = ''ws://localhost:6001''"
  "getPeerAddresses (node_with_peer db) = [''ws://localhost:6001'']"
  by (simp_all add: node_with_peer_def handleNewConnection_def fresh_node_def addPeer_def
      sendHandshake_def sendMessage_def getPublicAddress_def getPeerAddresses_def
      List.map_filter_def digit_char_def)

lemma sync_request_facts:
  "msg_type sync_request = MT_SYNC_LEDGER" "msg_payload sync_request = Some (Ledger (JStr ''batch''))"
  by (simp_all add: sync_request_def MT_SYNC_LEDGER_def)

text \<open>
  C6. When a peer of the active set sends a \<open>DISCOVERY\<close> envelope over an open
  connection, the node appends exactly one envelope to that connection: \<open>PEERS\<close>, with
  the current peer address list as payload, and that list contains the node's own
  advertised address. No other socket is written to and the peer set is unchanged.
\<close>

theorem discovery_answered_with_peers:
  assumes "map_of (peers n) peerId = Some p" "readyState (sockets n ws) = OPEN"
    and "msg_type message = MT_DISCOVERY"
  shows "outbox (sockets (handleMessage ext n ws (Parsed message) peerId) ws) =
           outbox (sockets n ws) @
             [\<lparr> msg_type = MT_PEERS, msg_payload = Some (Addresses (getPeerAddresses n)) \<rparr>]
         \<and> getPublicAddress n \<in> set (getPeerAddresses n)
         \<and> (\<forall>w. w \<noteq> ws \<longrightarrow> sockets (handleMessage ext n ws (Parsed message) peerId) w = sockets n w)
         \<and> peers (handleMessage ext n ws (Parsed message) peerId) = peers n"
  using assms
  by (simp add: handleMessage_def sendMessage_def getPeerAddresses_def MT_DISCOVERY_def
      MT_HANDSHAKE_def)

theorem discovery_answered_with_peers_witness:
  "map_of (peers (node_with_peer None)) ''p1'' \<noteq> None
   \<and> readyState (sockets (node_with_peer None) 0) = OPEN
   \<and> last (outbox (sockets (handleMessage no_handlers (node_with_peer None) 0
        (Parsed \<lparr> msg_type = ''DISCOVERY'', msg_payload = None \<rparr>) ''p1'') 0))
      = \<lparr> msg_type = ''PEERS'', msg_payload = Some (Addresses [''ws://localhost:6001'']) \<rparr>
   \<and> sockets (handleMessage no_handlers (node_with_peer None) 0
        (Parsed \<lparr> msg_type = ''DISCOVERY'', msg_payload = None \<rparr>) ''p1'') 1
      = sockets (node_with_peer None) 1"
  using discovery_answered_with_peers [of "node_with_peer None" "''p1''" _ 0
      "\<lparr> msg_type = ''DISCOVERY'', msg_payload = None \<rparr>" no_handlers]
  by (simp add: node_with_peer_facts MT_DISCOVERY_def MT_PEERS_def)

lemma handle_sync_ledger_result:
  assumes "readyState (sockets n ws) = OPEN" "dbConnection n = Some db"
    and "msg_payload message = Some (Ledger d)"
  shows "handle_sync_ledger n ws message =
     (let (r, calls) = syncLedger db d;
          reply = (case r of
                     Inr status \<Rightarrow> \<lparr> msg_type = MT_SYNC_LEDGER_CONFIRMATION,
                                      msg_payload = Some (Status status) \<rparr>
                   | Inl m \<Rightarrow> \<lparr> msg_type = MT_ERROR, msg_payload = Some (Message m) \<rparr>)
      in n\<lparr> ledger_calls := ledger_calls n @ calls,
            sockets := (sockets n)(ws := (sockets n ws)\<lparr> outbox := outbox (sockets n ws) @ [reply] \<rparr>) \<rparr>)"
  using assms
  by (auto simp: handle_sync_ledger_def sendMessage_def split: prod.splits sum.splits)

lemma handleMessage_sync_ledger:
  assumes "map_of (peers n) peerId = Some p" "msg_type message = MT_SYNC_LEDGER"
  shows "handleMessage ext n ws (Parsed message) peerId = handle_sync_ledger n ws message"
  using assms
  by (simp add: handleMessage_def MT_SYNC_LEDGER_def MT_HANDSHAKE_def MT_DISCOVERY_def
      MT_PEERS_def MT_NEW_TRIAD_def MT_VALIDATE_TRIAD_def MT_TRIAD_VALIDATED_def
      MT_GET_STATUS_def MT_ERROR_def)

lemma syncLedger_rejects:
  "syncLedger db d =
     (Inl ''logger.error is not a function'', if isOpenForNewUsers db then [d] else [])"
  by (simp add: syncLedger_def syncLedger_try_def logger_call_def logger_functions_def
      split: option.splits)

text \<open>
  C7. The claim asks for three replies to a \<open>SYNC_LEDGER\<close> request: an \<open>ERROR\<close> envelope
  without forwarding the batch when the collaborator is closed, \<open>SYNC_LEDGER_CONFIRMATION\<close>
  with status \<open>success\<close> when the update succeeds, an \<open>ERROR\<close> envelope with the message of
  the failure when it fails. The code gives the first only. \<open>syncLedger\<close> calls
  \<open>logger.warn\<close>, \<open>logger.info\<close> and \<open>logger.error\<close> on the module object of the logging
  utility, which has no such methods, so every call of \<open>syncLedger\<close> ends in its \<open>catch\<close>
  and is rejected with \<open>logger.error is not a function\<close>. With an open collaborator
  whose update succeeds, the batch is handed to \<open>updateLedger\<close> and the reply is that
  \<open>ERROR\<close> envelope, not a confirmation; with a failing update the reply carries the same
  message, not \<open>Update failed\<close>.
\<close>

theorem sync_ledger_never_confirms:
  "isOpenForNewUsers open_db \<and> updateLedger open_db (JStr ''batch'') = None
   \<and> last (outbox (sockets (handleMessage no_handlers (node_with_peer (Some open_db)) 0
                               (Parsed sync_request) ''p1'') 0))
       = \<lparr> msg_type = ''ERROR'',
           msg_payload = Some (Message ''logger.error is not a function'') \<rparr>
   \<and> ledger_calls (handleMessage no_handlers (node_with_peer (Some open_db)) 0
                      (Parsed sync_request) ''p1'') = [JStr ''batch'']
   \<and> isOpenForNewUsers failing_db
   \<and> updateLedger failing_db (JStr ''batch'') = Some ''Update failed''
   \<and> last (outbox (sockets (handleMessage no_handlers (node_with_peer (Some failing_db)) 0
                               (Parsed sync_request) ''p1'') 0))
       = \<lparr> msg_type = ''ERROR'',
           msg_payload = Some (Message ''logger.error is not a function'') \<rparr>
   \<and> \<not> isOpenForNewUsers closed_db
   \<and> last (outbox (sockets (handleMessage no_handlers (node_with_peer (Some closed_db)) 0
                               (Parsed sync_request) ''p1'') 0))
       = \<lparr> msg_type = ''ERROR'',
           msg_payload = Some (Message ''logger.error is not a function'') \<rparr>
   \<and> ledger_calls (handleMessage no_handlers (node_with_peer (Some closed_db)) 0
                      (Parsed sync_request) ''p1'') = []"
proof -
  have run: "handleMessage no_handlers (node_with_peer (Some db)) 0 (Parsed sync_request) ''p1'' =
      (node_with_peer (Some db))
        \<lparr> ledger_calls := ledger_calls (node_with_peer (Some db))
              @ (if isOpenForNewUsers db then [JStr ''batch''] else []),
          sockets := (sockets (node_with_peer (Some db)))
            (0 := (sockets (node_with_peer (Some db)) 0)
               \<lparr> outbox := outbox (sockets (node_with_peer (Some db)) 0) @
                    [\<lparr> msg_type = MT_ERROR,
                       msg_payload = Some (Message ''logger.error is not a function'') \<rparr>] \<rparr>) \<rparr>"
    for db
    unfolding handleMessage_sync_ledger [OF node_with_peer_facts(1) sync_request_facts(1)]
      handle_sync_ledger_result [OF node_with_peer_facts(2) node_with_peer_facts(3)
        sync_request_facts(2)]
    by (simp add: syncLedger_rejects)
  show ?thesis
    by (simp add: run node_with_peer_facts open_db_def failing_db_def closed_db_def MT_ERROR_def)
qed

text \<open>
  The guards of the connection handlers: an inbound connection at the cap is terminated
  and not added, so accepting keeps a peer set within the cap; \<open>connectToPeer\<close> at the
  cap, or to an address already connected, opens nothing; \<open>connectToPeer\<close> itself never
  changes the peer set; a disconnection never makes the set longer.
\<close>

lemma handleNewConnection_at_cap:
  assumes "int (length (peers n)) \<ge> maxPeers n"
  shows "peers (handleNewConnection n ws peerId now) = peers n
         \<and> readyState (sockets (handleNewConnection n ws peerId now) ws) = CLOSED"
  using assms by (simp add: handleNewConnection_def socket_terminate_def)

lemma connectToPeer_keeps_peers: "peers (fst (connectToPeer n a u)) = peers n"
  by (simp add: connectToPeer_def Let_def)

lemma connectToPeer_refused:
  assumes "int (length (peers n)) \<ge> maxPeers n \<or> isConnectedTo n a"
  shows "connectToPeer n a u = (n, None)"
  using assms by (auto simp: connectToPeer_def)

lemma length_update_le: "length (AList.update k v ps) \<le> Suc (length ps)"
  by (induction ps) auto

lemma handleNewConnection_within_cap:
  assumes "int (length (peers n)) \<le> maxPeers n"
  shows "int (length (peers (handleNewConnection n ws k now)))
           \<le> maxPeers (handleNewConnection n ws k now)"
proof (cases "int (length (peers n)) \<ge> maxPeers n")
  case True
  with assms show ?thesis by (simp add: handleNewConnection_def socket_terminate_def)
next
  case False
  have "length (AList.update k \<lparr> peer_ws = ws, peer_id = k, peer_direction = Incoming,
          peer_url = None, connectedAt = now \<rparr> (peers n)) \<le> Suc (length (peers n))"
    by (rule length_update_le)
  with False show ?thesis
    by (simp add: handleNewConnection_def sendHandshake_def sendMessage_def addPeer_def)
qed

lemma removePeer_length: "length (peers (removePeer n k)) \<le> length (peers n)"
  by (auto simp: removePeer_def socket_terminate_def Let_def length_delete_le
      split: option.splits)

lemma broadcast_loop_peers:
  "peers (broadcast_loop n m origin ps) = peers n"
  by (induction ps arbitrary: n) (auto simp: sendMessage_def)

lemma handlePeerDisconnection_length:
  "length (peers (handlePeerDisconnection n k)) \<le> length (peers n)"
  by (auto simp: handlePeerDisconnection_def socket_terminate_def Let_def broadcast_def
      broadcast_loop_peers length_delete_le split: option.splits)

text \<open>
  C8. The claim asks that the peer set never exceeds \<open>maxPeers\<close>. The guards above hold,
  but the cap is tested when an outbound connection is started and the peer is added
  when its socket opens, with no second test. A node capped at one peer and holding
  none starts two outbound connections (both pass the test, the set being empty); when
  both sockets open the set holds two peers.
\<close>

theorem outgoing_connections_exceed_maxPeers:
  "maxPeers (fresh_node 1 None) = 1 \<and> peers (fresh_node 1 None) = []
   \<and> snd (connectToPeer (fresh_node 1 None) ''ws://a:6001'' ''u1'') = Some (0, ''outgoing-u1'')
   \<and> snd (connectToPeer (fst (connectToPeer (fresh_node 1 None) ''ws://a:6001'' ''u1''))
            ''ws://b:6001'' ''u2'') = Some (1, ''outgoing-u2'')
   \<and> map fst (peers node_after_opens) = [''outgoing-u1'', ''outgoing-u2'']
   \<and> maxPeers node_after_opens = 1
   \<and> int (length (peers node_after_opens)) > maxPeers node_after_opens"
  by (simp add: node_after_opens_def node_after_connects_def connectToPeer_def fresh_node_def
      isConnectedTo_def outgoing_open_def addPeer_def sendHandshake_def sendMessage_def Let_def)

end
